theory Spec2Isabelle
  imports Main "HOL-Library.Multiset"
begin

section \<open>Values of the schema\<close>

text \<open>
  The two migrations declare four tables. Identifiers are \<open>uuid\<close> values, which the
  client handles as strings; timestamps are \<open>timestamptz\<close> values, ordered as points in
  time. A nullable column without a default is an \<open>option\<close>; the value \<open>None\<close> is SQL's
  NULL.
\<close>

type_synonym uuid = string
type_synonym timestamptz = int

text \<open>
  Errors a statement can end with. \<open>RaiseException\<close> is PL/pgSQL's
  \<^verbatim>\<open>RAISE EXCEPTION '...'\<close> with its message; the others name the constraint or
  the table whose policy refused the row. \<open>InfiniteRecursion\<close> is Postgres's error 42P17
  for a row-level security policy that leads back to its own table.
\<close>

datatype db_error =
    RaiseException string
  | CheckViolation string
  | UniqueViolation string
  | ForeignKeyViolation string
  | NotNullViolation string
  | RlsViolation string
  | InfiniteRecursion string

fun error_message :: "db_error \<Rightarrow> string" where
  "error_message (RaiseException m) = m"
| "error_message (CheckViolation c) = ''violates check constraint '' @ c"
| "error_message (UniqueViolation c) = ''duplicate key value violates unique constraint '' @ c"
| "error_message (ForeignKeyViolation c) = ''violates foreign key constraint '' @ c"
| "error_message (NotNullViolation c) = ''null value violates not-null constraint in column '' @ c"
| "error_message (RlsViolation t) = ''new row violates row-level security policy for table '' @ t"
| "error_message (InfiniteRecursion t) =
     ''infinite recursion detected in policy for relation '' @ [CHR 0x22] @ t @ [CHR 0x22]"

text \<open>SQL's \<open>=\<close> in a WHERE clause: a comparison with NULL is not true.\<close>

fun sql_eq :: "'a option \<Rightarrow> 'a option \<Rightarrow> bool" where
  "sql_eq (Some x) (Some y) = (x = y)"
| "sql_eq _ _ = False"

section \<open>The username pattern\<close>

text \<open>
  Both the check constraint (\<^verbatim>\<open>username ~ '^[a-zA-Z0-9_]{3,20}$'\<close>) and the client
  (\<^verbatim>\<open>/^[a-zA-Z0-9_]+$/\<close>) use one bracket expression, repeated and anchored at
  both ends. A bracket expression is a list of ranges and single characters.
\<close>

datatype class_item = FromTo char char | Lit char

fun in_item :: "class_item \<Rightarrow> char \<Rightarrow> bool" where
  "in_item (FromTo lo hi) c = ((of_char lo :: nat) \<le> of_char c \<and> (of_char c :: nat) \<le> of_char hi)"
| "in_item (Lit l) c = (c = l)"

definition in_class :: "class_item list \<Rightarrow> char \<Rightarrow> bool" where
  "in_class items c = list_ex (\<lambda>i. in_item i c) items"

text \<open>The bracket expression \<^verbatim>\<open>[a-zA-Z0-9_]\<close>.\<close>

definition word_class :: "class_item list" where
  "word_class = [FromTo CHR ''a'' CHR ''z'', FromTo CHR ''A'' CHR ''Z'', FromTo CHR ''0'' CHR ''9'', Lit CHR ''_'']"

text \<open>
  \<^verbatim>\<open>^[items]{lo,hi}$\<close>: the whole string consists of between \<open>lo\<close> and \<open>hi\<close>
  characters of the class; \<open>hi = None\<close> is an open bound, so \<^verbatim>\<open>^[items]+$\<close> is
  \<open>lo = 1\<close>, \<open>hi = None\<close>.
\<close>

definition match_repeat :: "class_item list \<Rightarrow> nat \<Rightarrow> nat option \<Rightarrow> string \<Rightarrow> bool" where
  "match_repeat items lo hi s =
     (lo \<le> length s \<and> (case hi of None \<Rightarrow> True | Some h \<Rightarrow> length s \<le> h) \<and> list_all (in_class items) s)"

text \<open>
  The constraint \<open>profiles_username_check\<close>. A CHECK constraint is satisfied when its
  expression is true or NULL, so a NULL username passes.
\<close>

definition profiles_username_check :: "string option \<Rightarrow> bool" where
  "profiles_username_check u =
     (case u of None \<Rightarrow> True | Some s \<Rightarrow> match_repeat word_class 3 (Some 20) s)"

text \<open>
  \<open>validateUsername\<close> of the sign-up form returns a message, or null when the username
  is fine. The two messages (in French in the source) are the two constructors:
  \<open>OnlyLettersDigitsUnderscores\<close> for the character test and \<open>Between3And20\<close> for the
  length test.
\<close>

datatype username_message = OnlyLettersDigitsUnderscores | Between3And20

definition validateUsername :: "string \<Rightarrow> username_message option" where
  "validateUsername username =
     (if \<not> match_repeat word_class 1 None username then Some OnlyLettersDigitsUnderscores
      else if length username < 3 \<or> length username > 20 then Some Between3And20
      else None)"

text \<open>
  The pattern in the words of the specification: only letters, digits and underscores,
  and a length of 3 to 20.
\<close>

definition spec_username_chars :: "char set" where
  "spec_username_chars =
     set ''abcdefghijklmnopqrstuvwxyzABCDEFGHIJKLMNOPQRSTUVWXYZ0123456789_''"

definition spec_username_ok :: "string \<Rightarrow> bool" where
  "spec_username_ok s = (3 \<le> length s \<and> length s \<le> 20 \<and> set s \<subseteq> spec_username_chars)"

section \<open>Tables\<close>

text \<open>
  The rows of the four tables, column by column. The table \<open>auth.users\<close>, which
  \<open>profiles.id\<close> references, belongs to the authentication service and is not part of
  the migrations; it is left out. The column \<open>username\<close> comes from the second
  migration.
\<close>

record profile =
  p_id :: uuid
  p_full_name :: "string option"
  p_avatar_url :: "string option"
  p_status :: "string option"
  p_last_seen :: "timestamptz option"
  p_created_at :: "timestamptz option"
  p_updated_at :: "timestamptz option"
  p_username :: "string option"

record conversation =
  c_id :: uuid
  c_title :: "string option"
  c_is_group :: bool
  c_created_at :: timestamptz
  c_updated_at :: timestamptz

record participant =
  cp_conversation_id :: uuid
  cp_user_id :: uuid
  cp_created_at :: timestamptz

record message =
  m_id :: uuid
  m_conversation_id :: "uuid option"
  m_user_id :: "uuid option"
  m_content :: "string option"
  m_type :: string
  m_file_url :: "string option"
  m_read :: bool
  m_created_at :: timestamptz
  m_updated_at :: timestamptz

text \<open>A table is the list of its rows, in insertion order.\<close>

record db =
  tbl_profiles :: "profile list"
  tbl_conversations :: "conversation list"
  tbl_conversation_participants :: "participant list"
  tbl_messages :: "message list"

text \<open>
  A statement either fails with an error, and then changes nothing, or yields a new
  database. \<open>state_after\<close> is the database a statement leaves behind.
\<close>

definition state_after :: "db \<Rightarrow> db_error + db \<Rightarrow> db" where
  "state_after d r = (case r of Inl e \<Rightarrow> d | Inr d' \<Rightarrow> d')"

section \<open>Profiles: the username trigger and the constraints\<close>

text \<open>
  Postgres lower-cases by the database's locale; for the letters A to Z this is the
  ASCII mapping, and the model leaves every other character as it is.
\<close>

definition lower_char :: "char \<Rightarrow> char" where
  "lower_char c = (if in_item (FromTo CHR ''A'' CHR ''Z'') c then char_of ((of_char c :: nat) + 32) else c)"

definition LOWER :: "string option \<Rightarrow> string option" where
  "LOWER s = map_option (map lower_char) s"

text \<open>
  The trigger function \<open>check_username_unique\<close>, run BEFORE INSERT OR UPDATE for each
  row: it raises when some row with another id has the same lower-cased username, and
  returns NEW otherwise.
\<close>

definition check_username_unique :: "db \<Rightarrow> profile \<Rightarrow> db_error + profile" where
  "check_username_unique d new =
     (if list_ex (\<lambda>p. sql_eq (LOWER (p_username p)) (LOWER (p_username new)) \<and> p_id p \<noteq> p_id new)
           (tbl_profiles d)
      then Inl (RaiseException ''Username already exists'')
      else Inr new)"

text \<open>
  The constraints on a row of \<open>profiles\<close>, checked against the other rows of the table:
  the check constraint first, then the primary key and \<open>profiles_username_key\<close>
  (UNIQUE treats NULLs as distinct).
\<close>

definition profiles_constraints :: "profile list \<Rightarrow> profile \<Rightarrow> db_error option" where
  "profiles_constraints others new =
     (if \<not> profiles_username_check (p_username new) then Some (CheckViolation ''profiles_username_check'')
      else if list_ex (\<lambda>p. p_id p = p_id new) others then Some (UniqueViolation ''profiles_pkey'')
      else if list_ex (\<lambda>p. sql_eq (p_username p) (p_username new)) others
        then Some (UniqueViolation ''profiles_username_key'')
      else None)"

text \<open>
  Inserting the row \<open>new\<close> into \<open>profiles\<close>: the BEFORE trigger runs first, then the
  constraints. This is the integrity path of an insert, as a caller goes through it
  whom row-level security lets insert. The migrations declare no INSERT policy on
  \<open>profiles\<close>, so a caller subject to row-level security is refused in addition, after
  the trigger has run.
\<close>

definition insert_profiles :: "db \<Rightarrow> profile \<Rightarrow> db_error + db" where
  "insert_profiles d new =
     (case check_username_unique d new of
        Inl e \<Rightarrow> Inl e
      | Inr n \<Rightarrow>
          (case profiles_constraints (tbl_profiles d) n of
             Some e \<Rightarrow> Inl e
           | None \<Rightarrow> Inr (d\<lparr>tbl_profiles := tbl_profiles d @ [n]\<rparr>)))"

text \<open>The policy "Users can update own profile": \<^verbatim>\<open>USING (auth.uid() = id)\<close>.\<close>

definition users_can_update_own_profile :: "uuid option \<Rightarrow> profile \<Rightarrow> bool" where
  "users_can_update_own_profile uid p = sql_eq uid (Some (p_id p))"

text \<open>
  \<^verbatim>\<open>UPDATE profiles SET username = v WHERE id = pid\<close>, run by the caller \<open>uid\<close>.
  Rows the policy hides from the caller are not updated (and nothing is raised); for a
  row it does update, the BEFORE trigger runs on NEW, then the constraints are checked
  against the other rows.
\<close>

definition update_profiles_username :: "db \<Rightarrow> uuid option \<Rightarrow> uuid \<Rightarrow> string option \<Rightarrow> db_error + db" where
  "update_profiles_username d uid pid v =
     (case find (\<lambda>p. p_id p = pid \<and> users_can_update_own_profile uid p) (tbl_profiles d) of
        None \<Rightarrow> Inr d
      | Some old \<Rightarrow>
          (case check_username_unique d (old\<lparr>p_username := v\<rparr>) of
             Inl e \<Rightarrow> Inl e
           | Inr n \<Rightarrow>
               (case profiles_constraints (filter (\<lambda>p. p_id p \<noteq> pid) (tbl_profiles d)) n of
                  Some e \<Rightarrow> Inl e
                | None \<Rightarrow>
                    Inr (d\<lparr>tbl_profiles := map (\<lambda>p. if p_id p = pid then n else p) (tbl_profiles d)\<rparr>))))"

section \<open>Access policies\<close>

text \<open>
  Row-level security is enabled on all four tables and every policy is declared
  \<^verbatim>\<open>TO authenticated\<close>. The caller is \<open>auth.uid()\<close>: the id of the signed-in user, or
  \<open>None\<close> for a request without a session. To a caller without a session no policy
  applies, so such a caller reads no row and may write none.

  The policy "Users can read conversation participants" (SELECT on
  \<open>conversation_participants\<close>) has the expression
  \<^verbatim>\<open>EXISTS (SELECT 1 FROM conversation_participants cp WHERE cp.conversation_id = conversation_participants.conversation_id AND cp.user_id = auth.uid())\<close>,
  a query on the very table the policy protects. When a statement of a signed-in
  caller reads \<open>conversation_participants\<close>, Postgres adds the policy to that read, and
  with the policy a second read of the table by the same caller, to which the policy
  applies again. Postgres notices this while it expands the policies, before it looks
  at any row, and refuses the statement with error 42P17, infinite recursion detected
  in policy for relation "conversation_participants". So a read of the table by a
  signed-in caller fails whatever the table holds.
\<close>

definition read_conversation_participants :: "db \<Rightarrow> uuid option \<Rightarrow> db_error + participant list" where
  "read_conversation_participants d uid =
     (case uid of
        None \<Rightarrow> Inr []
      | Some u \<Rightarrow> Inl (InfiniteRecursion ''conversation_participants''))"

text \<open>
  The subquery that the policies on \<open>conversations\<close> and \<open>messages\<close> share,
  \<^verbatim>\<open>EXISTS (SELECT 1 FROM conversation_participants WHERE conversation_id = ... AND user_id = auth.uid())\<close>,
  is such a read of \<open>conversation_participants\<close> by the caller. A statement whose
  policies contain the subquery fails when the read fails; otherwise the subquery
  tells, for a conversation id, whether one of the rows read links it to the caller.
\<close>

definition exists_participant :: "db \<Rightarrow> uuid option \<Rightarrow> db_error + (uuid option \<Rightarrow> bool)" where
  "exists_participant d uid =
     (case read_conversation_participants d uid of
        Inl e \<Rightarrow> Inl e
      | Inr rows \<Rightarrow>
          Inr (\<lambda>cid. list_ex (\<lambda>cp. sql_eq (Some (cp_conversation_id cp)) cid \<and> sql_eq (Some (cp_user_id cp)) uid)
                        rows))"

text \<open>
  The policies, each as a condition on a row. Where a policy's expression is the
  subquery, the condition takes the subquery's answer \<open>ex\<close>.

  "Users can read conversations they're part of" (SELECT on conversations).
\<close>

definition users_can_read_conversations :: "(uuid option \<Rightarrow> bool) \<Rightarrow> conversation \<Rightarrow> bool" where
  "users_can_read_conversations ex c = ex (Some (c_id c))"


text \<open>
  No policy FOR UPDATE is declared on \<open>conversations\<close>: with row-level security enabled,
  a caller subject to it may update no row of the table.
\<close>

definition users_can_update_conversations :: "uuid option \<Rightarrow> conversation \<Rightarrow> bool" where
  "users_can_update_conversations uid c = False"

text \<open>"Users can read conversation participants" (SELECT on conversation_participants).\<close>

definition users_can_read_conversation_participants :: "(uuid option \<Rightarrow> bool) \<Rightarrow> participant \<Rightarrow> bool" where
  "users_can_read_conversation_participants ex cp = ex (Some (cp_conversation_id cp))"


text \<open>"Users can read all profiles" and "Users can search by username" (SELECT on profiles).\<close>

definition users_can_read_all_profiles :: "uuid option \<Rightarrow> profile \<Rightarrow> bool" where
  "users_can_read_all_profiles uid p = (uid \<noteq> None)"

text \<open>"Users can read messages in their conversations" (SELECT on messages).\<close>

definition users_can_read_messages :: "(uuid option \<Rightarrow> bool) \<Rightarrow> message \<Rightarrow> bool" where
  "users_can_read_messages ex m = ex (m_conversation_id m)"

text \<open>
  "Users can send messages to their conversations" (INSERT on messages). The subquery
  compares the participant's \<open>user_id\<close> with \<open>auth.uid()\<close>, the caller; the new row's own
  \<open>user_id\<close> does not occur in it.
\<close>

definition users_can_send_messages :: "(uuid option \<Rightarrow> bool) \<Rightarrow> message \<Rightarrow> bool" where
  "users_can_send_messages ex new = ex (m_conversation_id new)"

section \<open>Messages: insert, timestamp trigger, select\<close>

text \<open>
  The trigger function \<open>update_conversation_timestamp\<close>, run AFTER INSERT ON messages for
  each row: \<^verbatim>\<open>UPDATE conversations SET updated_at = now() WHERE id = NEW.conversation_id\<close>.
  The function is not declared SECURITY DEFINER, so its UPDATE runs as the caller of
  the insert, under row-level security: the statement reads \<open>conversations\<close> (its WHERE
  clause), which brings in the SELECT policy and the subquery, and it changes only
  rows that the caller may read and update.
\<close>

definition update_conversation_timestamp :: "uuid option \<Rightarrow> timestamptz \<Rightarrow> message \<Rightarrow> db \<Rightarrow> db_error + db" where
  "update_conversation_timestamp uid now new d =
     (case exists_participant d uid of
        Inl e \<Rightarrow> Inl e
      | Inr ex \<Rightarrow>
          Inr (d\<lparr>tbl_conversations :=
                 map (\<lambda>c. if users_can_read_conversations ex c \<and> users_can_update_conversations uid c
                              \<and> sql_eq (Some (c_id c)) (m_conversation_id new)
                           then c\<lparr>c_updated_at := now\<rparr> else c)
                   (tbl_conversations d)\<rparr>))"

text \<open>
  What the client sends to insert a message is a \<^verbatim>\<open>Partial<Message>\<close>: any field of
  the interface \<open>Message\<close> may be absent.
\<close>

record message_draft =
  d_id :: "uuid option"
  d_content :: "string option"
  d_created_at :: "timestamptz option"
  d_user_id :: "uuid option"
  d_conversation_id :: "uuid option"
  d_type :: "string option"
  d_file_url :: "string option"
  d_read :: "bool option"

text \<open>
  The row an insert of the draft builds: a column the draft leaves out gets its
  default. \<open>fresh\<close> is the value of \<open>gen_random_uuid()\<close> and \<open>now\<close> that of \<open>now()\<close> in
  the inserting statement.
\<close>

definition messages_new_row :: "uuid \<Rightarrow> timestamptz \<Rightarrow> message_draft \<Rightarrow> message" where
  "messages_new_row fresh now draft =
     \<lparr> m_id = (case d_id draft of None \<Rightarrow> fresh | Some i \<Rightarrow> i),
       m_conversation_id = d_conversation_id draft,
       m_user_id = d_user_id draft,
       m_content = d_content draft,
       m_type = (case d_type draft of None \<Rightarrow> ''text'' | Some t \<Rightarrow> t),
       m_file_url = d_file_url draft,
       m_read = (case d_read draft of None \<Rightarrow> False | Some r \<Rightarrow> r),
       m_created_at = (case d_created_at draft of None \<Rightarrow> now | Some t \<Rightarrow> t),
       m_updated_at = now \<rparr>"

text \<open>A foreign key column holds NULL or the key of a row of the referenced table.\<close>

definition references :: "uuid option \<Rightarrow> uuid list \<Rightarrow> bool" where
  "references k keys = (case k of None \<Rightarrow> True | Some i \<Rightarrow> i \<in> set keys)"

text \<open>
  \<^verbatim>\<open>supabase.from('messages').insert([draft]).select().single()\<close> as the caller \<open>uid\<close>.
  The INSERT policy's expression is the subquery, so the statement fails when the
  subquery's read fails. Otherwise the new row must pass the policy (a row returned by
  \<open>.select()\<close> must pass the SELECT policy too, which has the same condition), the
  primary key and the two foreign keys; then the row is stored and the AFTER INSERT
  trigger runs, whose error fails the statement. The answer is the stored row.
\<close>

definition insert_messages ::
  "db \<Rightarrow> uuid option \<Rightarrow> uuid \<Rightarrow> timestamptz \<Rightarrow> message_draft \<Rightarrow> db_error + (message \<times> db)" where
  "insert_messages d uid fresh now draft =
     (let new = messages_new_row fresh now draft in
      case exists_participant d uid of
        Inl e \<Rightarrow> Inl e
      | Inr ex \<Rightarrow>
          if \<not> (users_can_send_messages ex new \<and> users_can_read_messages ex new)
            then Inl (RlsViolation ''messages'')
          else if list_ex (\<lambda>m. m_id m = m_id new) (tbl_messages d) then Inl (UniqueViolation ''messages_pkey'')
          else if \<not> references (m_conversation_id new) (map c_id (tbl_conversations d))
            then Inl (ForeignKeyViolation ''messages_conversation_id_fkey'')
          else if \<not> references (m_user_id new) (map p_id (tbl_profiles d))
            then Inl (ForeignKeyViolation ''messages_user_id_fkey'')
          else (case update_conversation_timestamp uid now new (d\<lparr>tbl_messages := tbl_messages d @ [new]\<rparr>) of
                  Inl e \<Rightarrow> Inl e
                | Inr d' \<Rightarrow> Inr (new, d')))"

text \<open>
  \<^verbatim>\<open>supabase.from('messages').select('*').eq('conversation_id', conversationId).order('created_at', { ascending: true })\<close>
  as the caller \<open>uid\<close>: the SELECT policy's expression is the subquery, so the query
  fails when the subquery's read fails; otherwise the answer is the rows of the
  conversation that the policy lets the caller read, sorted by \<open>created_at\<close>.
\<close>

definition select_messages :: "db \<Rightarrow> uuid option \<Rightarrow> uuid \<Rightarrow> db_error + message list" where
  "select_messages d uid conversationId =
     (case exists_participant d uid of
        Inl e \<Rightarrow> Inl e
      | Inr ex \<Rightarrow>
          Inr (sort_key m_created_at
                 (filter (\<lambda>m. sql_eq (m_conversation_id m) (Some conversationId) \<and> users_can_read_messages ex m)
                    (tbl_messages d))))"

section \<open>Conversations and participants: insert and select\<close>






text \<open>
  The directory's query,
  \<^verbatim>\<open>select('*, participants:conversation_participants(user:profiles(*)), last_message:messages(*)').order('updated_at', { ascending: false })\<close>.
  The SELECT policy of \<open>conversations\<close> is the subquery, and the query reads
  \<open>conversation_participants\<close> itself for the embedded participants, so the query fails
  when that read fails. Otherwise each conversation row the caller may read carries
  two embedded resources. Both are to-many relations (the foreign keys point from
  \<open>conversation_participants\<close> and from \<open>messages\<close> to \<open>conversations\<close>), so each is the
  array of the readable rows that reference the conversation; \<open>participants:\<close> and
  \<open>last_message:\<close> only rename them. Inside a participant, \<open>user\<close> is the one referenced
  profile, or null.
\<close>

record participant_embed =
  user :: "profile option"

record conversation_row = conversation +
  row_participants :: "participant_embed list"
  row_last_message :: "message list"

definition embed_participants :: "db \<Rightarrow> uuid option \<Rightarrow> (uuid option \<Rightarrow> bool) \<Rightarrow> conversation \<Rightarrow> participant_embed list" where
  "embed_participants d uid ex c =
     map (\<lambda>cp. \<lparr> user = find (\<lambda>p. p_id p = cp_user_id cp \<and> users_can_read_all_profiles uid p) (tbl_profiles d) \<rparr>)
       (filter (\<lambda>cp. cp_conversation_id cp = c_id c \<and> users_can_read_conversation_participants ex cp)
          (tbl_conversation_participants d))"

definition embed_messages :: "db \<Rightarrow> (uuid option \<Rightarrow> bool) \<Rightarrow> conversation \<Rightarrow> message list" where
  "embed_messages d ex c =
     filter (\<lambda>m. sql_eq (m_conversation_id m) (Some (c_id c)) \<and> users_can_read_messages ex m)
       (tbl_messages d)"

definition select_conversations :: "db \<Rightarrow> uuid option \<Rightarrow> db_error + conversation_row list" where
  "select_conversations d uid =
     (case exists_participant d uid of
        Inl e \<Rightarrow> Inl e
      | Inr ex \<Rightarrow>
          Inr (map (\<lambda>c. \<lparr> c_id = c_id c, c_title = c_title c, c_is_group = c_is_group c,
                          c_created_at = c_created_at c, c_updated_at = c_updated_at c,
                          row_participants = embed_participants d uid ex c,
                          row_last_message = embed_messages d ex c \<rparr>)
                 (sort_key (\<lambda>c. - c_updated_at c)
                    (filter (users_can_read_conversations ex) (tbl_conversations d)))))"

section \<open>The client stores\<close>

text \<open>
  What an async function of a store ends with: its promise resolves with a value or
  rejects with the error thrown. An error is the client's own \<open>Error('No user found')\<close>
  or the error object of a backend answer; \<open>js_message\<close> is its \<open>message\<close>.
\<close>

datatype js_error = NoUserFound | BackendError db_error

fun js_message :: "js_error \<Rightarrow> string" where
  "js_message NoUserFound = ''No user found''"
| "js_message (BackendError e) = error_message e"

datatype 'a promise = Resolved 'a | Rejected js_error

text \<open>The message store (\<open>useMessages\<close>): its state and its two operations.\<close>

record MessageStore =
  messages :: "message list"
  msg_loading :: bool
  msg_error :: "string option"

text \<open>
  \<open>sendMessage\<close>: the insert's error is thrown and caught inside the function, which
  stores its message; on success the returned row is appended. The function has no
  return statement and does not rethrow. The result is the promise's outcome, the
  database after the call and the store after the call.
\<close>

definition sendMessage ::
  "db \<Rightarrow> uuid option \<Rightarrow> uuid \<Rightarrow> timestamptz \<Rightarrow> message_draft \<Rightarrow> MessageStore
     \<Rightarrow> unit promise \<times> db \<times> MessageStore" where
  "sendMessage d uid fresh now message st =
     (case insert_messages d uid fresh now message of
        Inl error \<Rightarrow> (Resolved (), d, st\<lparr>msg_error := Some (error_message error)\<rparr>)
      | Inr (data, d') \<Rightarrow> (Resolved (), d', st\<lparr>messages := messages st @ [data]\<rparr>))"

text \<open>
  \<open>fetchMessages\<close>: \<open>loading\<close> is set; the query's error is thrown and caught, and its
  message stored, the list staying as it was; an answer replaces the list and clears
  the error; finally \<open>loading\<close> is reset.
\<close>

definition fetchMessages :: "db \<Rightarrow> uuid option \<Rightarrow> uuid \<Rightarrow> MessageStore \<Rightarrow> unit promise \<times> MessageStore" where
  "fetchMessages d uid conversationId st =
     (let st1 = st\<lparr>msg_loading := True\<rparr> in
      case select_messages d uid conversationId of
        Inl error \<Rightarrow> (Resolved (), st1\<lparr>msg_error := Some (error_message error), msg_loading := False\<rparr>)
      | Inr data \<Rightarrow> (Resolved (), st1\<lparr>messages := data, msg_error := None, msg_loading := False\<rparr>))"

text \<open>
  The object \<open>handleSend\<close> of the chat window passes to \<open>sendMessage\<close>: the typed text,
  the window's conversation and user, and the client's clock
  (\<^verbatim>\<open>new Date().toISOString()\<close>) as \<open>created_at\<close>.
\<close>

definition handleSend_message :: "string \<Rightarrow> uuid \<Rightarrow> uuid \<Rightarrow> timestamptz \<Rightarrow> message_draft" where
  "handleSend_message newMessage conversationId currentUserId clientNow =
     \<lparr> d_id = None, d_content = Some newMessage, d_created_at = Some clientNow,
       d_user_id = Some currentUserId, d_conversation_id = Some conversationId,
       d_type = Some ''text'', d_file_url = None, d_read = None \<rparr>"

text \<open>
  The conversation store (\<open>useConversations\<close>). A conversation of the store is the
  answer's row with \<open>participants\<close> replaced by the embedded users
  (\<^verbatim>\<open>{ ...conv, participants: conv.participants.map(p => p.user) }\<close>).
\<close>

record Conversation = conversation +
  participants :: "profile option list"
  last_message :: "message list"

record ConversationStore =
  conversations :: "Conversation list"
  conv_loading :: bool
  conv_error :: "string option"

definition conversationsWithParticipants :: "conversation_row list \<Rightarrow> Conversation list" where
  "conversationsWithParticipants data =
     map (\<lambda>conv. \<lparr> c_id = c_id conv, c_title = c_title conv, c_is_group = c_is_group conv,
                   c_created_at = c_created_at conv, c_updated_at = c_updated_at conv,
                   participants = map user (row_participants conv),
                   last_message = row_last_message conv \<rparr>) data"

text \<open>
  \<open>fetchConversations\<close>: \<open>loading\<close> is set; without a signed-in user it throws
  \<open>Error('No user found')\<close>, and it throws the error of a failed query; its own catch
  block stores the message of either, the list staying as it was. An answer of the
  directory's query replaces the list and clears the error. Finally \<open>loading\<close> is reset.
  The signed-in user of \<open>supabase.auth.getUser()\<close> is the caller the policies see.
\<close>

definition fetchConversations :: "db \<Rightarrow> uuid option \<Rightarrow> ConversationStore \<Rightarrow> unit promise \<times> ConversationStore" where
  "fetchConversations d auth st =
     (let st1 = st\<lparr>conv_loading := True\<rparr> in
      case auth of
        None \<Rightarrow> (Resolved (), st1\<lparr>conv_error := Some (js_message NoUserFound), conv_loading := False\<rparr>)
      | Some u \<Rightarrow>
          (case select_conversations d (Some u) of
             Inl error \<Rightarrow>
               (Resolved (), st1\<lparr>conv_error := Some (js_message (BackendError error)), conv_loading := False\<rparr>)
           | Inr data \<Rightarrow>
               (Resolved (),
                st1\<lparr>conversations := conversationsWithParticipants data, conv_error := None,
                    conv_loading := False\<rparr>)))"


section \<open>Integrity of the stored data\<close>


text \<open>The members of a conversation: the users of its stored participant rows.\<close>

definition members :: "db \<Rightarrow> uuid \<Rightarrow> uuid set" where
  "members d cid = cp_user_id ` {cp \<in> set (tbl_conversation_participants d). cp_conversation_id cp = cid}"

section \<open>Sample rows\<close>

text \<open>Small rows and an empty database for the worked examples.\<close>

definition sample_profile :: "uuid \<Rightarrow> string option \<Rightarrow> profile" where
  "sample_profile i u =
     \<lparr> p_id = i, p_full_name = u, p_avatar_url = None, p_status = Some ''offline'',
       p_last_seen = None, p_created_at = None, p_updated_at = None, p_username = u \<rparr>"

definition empty_db :: db where
  "empty_db = \<lparr> tbl_profiles = [], tbl_conversations = [], tbl_conversation_participants = [], tbl_messages = [] \<rparr>"

definition sample_conversation :: "uuid \<Rightarrow> timestamptz \<Rightarrow> conversation" where
  "sample_conversation i t =
     \<lparr> c_id = i, c_title = None, c_is_group = False, c_created_at = t, c_updated_at = t \<rparr>"

definition sample_participant :: "uuid \<Rightarrow> uuid \<Rightarrow> participant" where
  "sample_participant cid u = \<lparr> cp_conversation_id = cid, cp_user_id = u, cp_created_at = 0 \<rparr>"

text \<open>
  Three profiles A, B and C, and one conversation c1, created at time 10, whose only
  participant is A.
\<close>

definition chat_db :: db where
  "chat_db =
     \<lparr> tbl_profiles = [sample_profile ''A'' (Some ''alice''), sample_profile ''B'' (Some ''bob''),
                       sample_profile ''C'' (Some ''carol'')],
       tbl_conversations = [sample_conversation ''c1'' 10],
       tbl_conversation_participants = [sample_participant ''c1'' ''A''],
       tbl_messages = [] \<rparr>"

definition empty_messages :: MessageStore where
  "empty_messages = \<lparr> messages = [], msg_loading = False, msg_error = None \<rparr>"

definition empty_conversations :: ConversationStore where
  "empty_conversations = \<lparr> conversations = [], conv_loading = False, conv_error = None \<rparr>"

text \<open>The text of error 42P17 as the stores keep it.\<close>

definition recursion_message :: string where
  "recursion_message = error_message (InfiniteRecursion ''conversation_participants'')"

section \<open>The bracket expression and the pattern of the specification\<close>

lemma range_enum:
  assumes "in_item (FromTo lo hi) c"
  shows "c \<in> char_of ` set [of_char lo ..< Suc (of_char hi :: nat)]"
proof -
  have "(of_char c :: nat) \<in> set [of_char lo ..< Suc (of_char hi :: nat)]"
    using assms by (simp only: in_item.simps set_upt atLeastLessThan_iff less_Suc_eq_le simp_thms)
  then have "char_of (of_char c :: nat) \<in> char_of ` set [of_char lo ..< Suc (of_char hi :: nat)]"
    by (rule imageI)
  then show ?thesis by simp
qed

lemma lower_letters:
  "char_of ` set [of_char CHR ''a'' ..< Suc (of_char CHR ''z'' :: nat)] = set ''abcdefghijklmnopqrstuvwxyz''"
  by (simp add: upt_rec char_of_def bit_0)

lemma upper_letters:
  "char_of ` set [of_char CHR ''A'' ..< Suc (of_char CHR ''Z'' :: nat)] = set ''ABCDEFGHIJKLMNOPQRSTUVWXYZ''"
  by (simp add: upt_rec char_of_def bit_0)

lemma digits:
  "char_of ` set [of_char CHR ''0'' ..< Suc (of_char CHR ''9'' :: nat)] = set ''0123456789''"
  by (simp add: upt_rec char_of_def bit_0)

lemma spec_username_chars_split:
  "spec_username_chars =
     set ''abcdefghijklmnopqrstuvwxyz'' \<union> set ''ABCDEFGHIJKLMNOPQRSTUVWXYZ'' \<union> set ''0123456789'' \<union> {CHR ''_''}"
  unfolding spec_username_chars_def by (simp add: insert_commute)

lemma in_lower: "in_item (FromTo CHR ''a'' CHR ''z'') c \<longleftrightarrow> c \<in> set ''abcdefghijklmnopqrstuvwxyz''"
proof
  assume "in_item (FromTo CHR ''a'' CHR ''z'') c"
  from range_enum[OF this] show "c \<in> set ''abcdefghijklmnopqrstuvwxyz''"
    unfolding lower_letters .
next
  assume "c \<in> set ''abcdefghijklmnopqrstuvwxyz''"
  then show "in_item (FromTo CHR ''a'' CHR ''z'') c" by auto
qed

lemma in_upper: "in_item (FromTo CHR ''A'' CHR ''Z'') c \<longleftrightarrow> c \<in> set ''ABCDEFGHIJKLMNOPQRSTUVWXYZ''"
proof
  assume "in_item (FromTo CHR ''A'' CHR ''Z'') c"
  from range_enum[OF this] show "c \<in> set ''ABCDEFGHIJKLMNOPQRSTUVWXYZ''"
    unfolding upper_letters .
next
  assume "c \<in> set ''ABCDEFGHIJKLMNOPQRSTUVWXYZ''"
  then show "in_item (FromTo CHR ''A'' CHR ''Z'') c" by auto
qed

lemma in_digit: "in_item (FromTo CHR ''0'' CHR ''9'') c \<longleftrightarrow> c \<in> set ''0123456789''"
proof
  assume "in_item (FromTo CHR ''0'' CHR ''9'') c"
  from range_enum[OF this] show "c \<in> set ''0123456789''"
    unfolding digits .
next
  assume "c \<in> set ''0123456789''"
  then show "in_item (FromTo CHR ''0'' CHR ''9'') c" by auto
qed

lemma in_word_class: "in_class word_class c \<longleftrightarrow> c \<in> spec_username_chars"
proof -
  have "in_class word_class c \<longleftrightarrow>
          in_item (FromTo CHR ''a'' CHR ''z'') c \<or> in_item (FromTo CHR ''A'' CHR ''Z'') c
        \<or> in_item (FromTo CHR ''0'' CHR ''9'') c \<or> c = CHR ''_''"
    unfolding in_class_def word_class_def
    by (simp only: list_ex_Cons_iff list_ex_Nil_iff in_item.simps(2) simp_thms)
  then show ?thesis
    unfolding in_lower in_upper in_digit spec_username_chars_split by blast
qed

lemma match_word_class:
  "match_repeat word_class lo hi s \<longleftrightarrow>
     lo \<le> length s \<and> (case hi of None \<Rightarrow> True | Some h \<Rightarrow> length s \<le> h) \<and> set s \<subseteq> spec_username_chars"
  unfolding match_repeat_def by (auto simp: list_all_iff in_word_class)

lemma check_is_spec: "profiles_username_check (Some s) \<longleftrightarrow> spec_username_ok s"
  by (simp add: profiles_username_check_def match_word_class spec_username_ok_def)

lemma validate_is_spec: "validateUsername s = None \<longleftrightarrow> spec_username_ok s"
  by (auto simp: validateUsername_def match_word_class spec_username_ok_def)


section \<open>Username uniqueness\<close>

lemma find_own_row:
  assumes "pid \<in> set (map p_id ps)"
  shows "\<exists>old. find (\<lambda>p. p_id p = pid \<and> users_can_update_own_profile (Some pid) p) ps = Some old \<and> p_id old = pid"
proof -
  from assms obtain p where "p \<in> set ps" "p_id p = pid"
    by auto
  then have "find (\<lambda>p. p_id p = pid \<and> users_can_update_own_profile (Some pid) p) ps \<noteq> None"
    by (auto simp: find_None_iff users_can_update_own_profile_def)
  then obtain old where f: "find (\<lambda>p. p_id p = pid \<and> users_can_update_own_profile (Some pid) p) ps = Some old"
    by auto
  then have "p_id old = pid" by (auto simp: find_Some_iff)
  with f show ?thesis by simp
qed






section \<open>Username pattern\<close>

lemma insert_profiles_checked:
  assumes "insert_profiles d new = Inr d'"
  shows "profiles_username_check (p_username new)"
  using assms
  by (auto simp: insert_profiles_def check_username_unique_def profiles_constraints_def
      split: if_splits sum.splits option.splits)

lemma insert_profiles_rejects:
  assumes "\<not> profiles_username_check (p_username new)"
  shows "\<exists>e. insert_profiles d new = Inl e"
  using assms
  by (auto simp: insert_profiles_def check_username_unique_def profiles_constraints_def
      split: if_splits sum.splits option.splits)

lemma update_profiles_checked:
  assumes "update_profiles_username d (Some pid) pid v = Inr d'" "pid \<in> set (map p_id (tbl_profiles d))"
  shows "profiles_username_check v"
proof -
  from find_own_row[OF assms(2)] obtain old
    where f: "find (\<lambda>p. p_id p = pid \<and> users_can_update_own_profile (Some pid) p) (tbl_profiles d) = Some old"
    by blast
  with assms(1) show ?thesis
    by (auto simp: update_profiles_username_def check_username_unique_def profiles_constraints_def
        split: if_splits sum.splits option.splits)
qed

lemma update_profiles_rejects:
  assumes "\<not> profiles_username_check v"
  shows "state_after d (update_profiles_username d uid pid v) = d"
  using assms
  by (auto simp: update_profiles_username_def check_username_unique_def profiles_constraints_def state_after_def
      split: if_splits sum.splits option.splits)

text \<open>
  Claim C9. A username that an insert or an update of a profile stores consists of
  letters, digits and underscores only and has 3 to 20 characters; a string that does
  not is refused by the insert with an error and is not stored by the update; and the
  sign-up form's \<open>validateUsername\<close> accepts exactly the same strings.
\<close>

theorem username_pattern_enforced:
  "(insert_profiles d new = Inr d' \<and> p_username new = Some s \<longrightarrow> spec_username_ok s)
   \<and> (update_profiles_username d (Some pid) pid (Some s) = Inr d' \<and> pid \<in> set (map p_id (tbl_profiles d))
        \<longrightarrow> spec_username_ok s)
   \<and> (\<not> spec_username_ok s \<and> p_username new = Some s \<longrightarrow> (\<exists>e. insert_profiles d new = Inl e))
   \<and> (\<not> spec_username_ok s \<longrightarrow> state_after d (update_profiles_username d uid pid (Some s)) = d)
   \<and> (validateUsername s = None \<longleftrightarrow> spec_username_ok s)"
proof (intro conjI impI)
  show "spec_username_ok s" if "insert_profiles d new = Inr d' \<and> p_username new = Some s"
    using that insert_profiles_checked[of d new d'] by (simp add: check_is_spec)
  show "spec_username_ok s"
    if "update_profiles_username d (Some pid) pid (Some s) = Inr d' \<and> pid \<in> set (map p_id (tbl_profiles d))"
    using that update_profiles_checked[of d pid "Some s" d'] by (simp add: check_is_spec)
  show "\<exists>e. insert_profiles d new = Inl e" if "\<not> spec_username_ok s \<and> p_username new = Some s"
    using that insert_profiles_rejects[of new d] by (simp add: check_is_spec)
  show "state_after d (update_profiles_username d uid pid (Some s)) = d" if "\<not> spec_username_ok s"
    using that update_profiles_rejects[of "Some s" d uid pid] by (simp add: check_is_spec)
  show "validateUsername s = None \<longleftrightarrow> spec_username_ok s"
    by (rule validate_is_spec)
qed

text \<open>"alice_1" is stored and passes the form; "al" is refused by both.\<close>

theorem username_pattern_enforced_witness:
  "insert_profiles empty_db (sample_profile ''A'' (Some ''alice_1''))
     = Inr (empty_db\<lparr>tbl_profiles := [sample_profile ''A'' (Some ''alice_1'')]\<rparr>)
   \<and> spec_username_ok ''alice_1''
   \<and> validateUsername ''alice_1'' = None
   \<and> \<not> spec_username_ok ''al''
   \<and> (\<exists>e. insert_profiles empty_db (sample_profile ''A'' (Some ''al'')) = Inl e)
   \<and> validateUsername ''al'' \<noteq> None"
proof -
  have acc: "insert_profiles empty_db (sample_profile ''A'' (Some ''alice_1''))
     = Inr (empty_db\<lparr>tbl_profiles := [sample_profile ''A'' (Some ''alice_1'')]\<rparr>)"
    by (simp add: insert_profiles_def check_username_unique_def profiles_constraints_def
        profiles_username_check_def match_repeat_def in_class_def word_class_def
        empty_db_def sample_profile_def)
  have u: "p_username (sample_profile ''A'' (Some ''alice_1'')) = Some ''alice_1''"
    "p_username (sample_profile ''A'' (Some ''al'')) = Some ''al''"
    by (simp_all add: sample_profile_def)
  have bad: "\<not> spec_username_ok ''al''"
    by (simp add: spec_username_ok_def)
  note good = username_pattern_enforced[where d = empty_db and new = "sample_profile ''A'' (Some ''alice_1'')"
      and s = "''alice_1''" and d' = "empty_db\<lparr>tbl_profiles := [sample_profile ''A'' (Some ''alice_1'')]\<rparr>"]
  note short = username_pattern_enforced[where d = empty_db and new = "sample_profile ''A'' (Some ''al'')"
      and s = "''al''"]
  from good acc u have ok: "spec_username_ok ''alice_1''" by blast
  with good have v: "validateUsername ''alice_1'' = None" by blast
  from short bad u have rej: "\<exists>e. insert_profiles empty_db (sample_profile ''A'' (Some ''al'')) = Inl e" by blast
  from short bad have nv: "validateUsername ''al'' \<noteq> None" by blast
  from acc ok v bad rej nv show ?thesis by blast
qed


section \<open>What the backend answers\<close>

lemmas sample_defs = chat_db_def sample_profile_def sample_conversation_def sample_participant_def
  empty_messages_def empty_conversations_def empty_db_def

text \<open>
  The subquery fails for every signed-in caller and finds nothing for a caller without
  a session, whatever the database holds.
\<close>

lemma exists_participant_signed_in:
  "exists_participant d (Some u) = Inl (InfiniteRecursion ''conversation_participants'')"
  by (simp add: exists_participant_def read_conversation_participants_def)

lemma exists_participant_no_session:
  "exists_participant d None = Inr (\<lambda>cid. False)"
  by (simp add: exists_participant_def read_conversation_participants_def)

text \<open>So every insert of a message is refused, and so is every insert of a conversation.\<close>

lemma insert_messages_refused:
  "insert_messages d uid fresh now draft =
     Inl (case uid of None \<Rightarrow> RlsViolation ''messages''
          | Some u \<Rightarrow> InfiniteRecursion ''conversation_participants'')"
proof (cases uid)
  case None
  then show ?thesis
    by (simp add: insert_messages_def exists_participant_no_session users_can_send_messages_def Let_def)
next
  case (Some u)
  then show ?thesis
    by (simp add: insert_messages_def exists_participant_signed_in Let_def)
qed


text \<open>The two queries fail for a signed-in caller and are empty without a session.\<close>

lemma select_messages_answer:
  "select_messages d uid cid =
     (case uid of None \<Rightarrow> Inr [] | Some u \<Rightarrow> Inl (InfiniteRecursion ''conversation_participants''))"
proof (cases uid)
  case None
  then show ?thesis
    by (simp add: select_messages_def exists_participant_no_session users_can_read_messages_def)
next
  case (Some u)
  then show ?thesis
    by (simp add: select_messages_def exists_participant_signed_in)
qed

lemma select_conversations_answer:
  "select_conversations d uid =
     (case uid of None \<Rightarrow> Inr [] | Some u \<Rightarrow> Inl (InfiniteRecursion ''conversation_participants''))"
proof (cases uid)
  case None
  then show ?thesis
    by (simp add: select_conversations_def exists_participant_no_session users_can_read_conversations_def)
next
  case (Some u)
  then show ?thesis
    by (simp add: select_conversations_def exists_participant_signed_in)
qed


section \<open>Message insert: the sender\<close>

lemma sendMessage_refused:
  "sendMessage d uid fresh now draft st =
     (Resolved (), d,
      st\<lparr>msg_error := Some (error_message (case uid of None \<Rightarrow> RlsViolation ''messages''
                                            | Some u \<Rightarrow> InfiniteRecursion ''conversation_participants''))\<rparr>)"
  by (simp add: sendMessage_def insert_messages_refused)



section \<open>sendMessage when the insert fails\<close>

text \<open>
  Claim C10. When the insert of the draft fails with error \<open>e\<close>, \<open>sendMessage\<close> leaves the
  database and the store's \<open>messages\<close> as they were, stores the error's message in the
  store's \<open>error\<close> field, and its promise resolves.
\<close>

theorem sendMessage_failure:
  "insert_messages d uid fresh now message = Inl e \<Longrightarrow>
     sendMessage d uid fresh now message st = (Resolved (), d, st\<lparr>msg_error := Some (error_message e)\<rparr>)
   \<and> messages (snd (snd (sendMessage d uid fresh now message st))) = messages st
   \<and> msg_error (snd (snd (sendMessage d uid fresh now message st))) = Some (error_message e)
   \<and> fst (sendMessage d uid fresh now message st) = Resolved ()"
  by (simp add: sendMessage_def)

text \<open>B sends into c1: the refusal ends up in the error field.\<close>

theorem sendMessage_failure_witness:
  "insert_messages chat_db (Some ''B'') ''m1'' 20 (handleSend_message ''hi'' ''c1'' ''B'' 20)
     = Inl (InfiniteRecursion ''conversation_participants'')
   \<and> sendMessage chat_db (Some ''B'') ''m1'' 20 (handleSend_message ''hi'' ''c1'' ''B'' 20) empty_messages
     = (Resolved (), chat_db, empty_messages\<lparr>msg_error := Some recursion_message\<rparr>)"
proof -
  have rej: "insert_messages chat_db (Some ''B'') ''m1'' 20 (handleSend_message ''hi'' ''c1'' ''B'' 20)
     = Inl (InfiniteRecursion ''conversation_participants'')"
    by (simp add: insert_messages_refused)
  from sendMessage_failure[OF rej, of empty_messages] rej show ?thesis
    by (simp only: recursion_message_def simp_thms)
qed

section \<open>Sending a message and fetching the conversation\<close>

text \<open>
  For a signed-in caller \<open>fetchMessages\<close> keeps the list it had and stores the error;
  without a session it empties the list.
\<close>

lemma fetchMessages_signed_in:
  "fetchMessages d (Some u) cid st
     = (Resolved (), st\<lparr>msg_loading := True, msg_error := Some recursion_message, msg_loading := False\<rparr>)"
  by (simp add: fetchMessages_def select_messages_answer recursion_message_def Let_def)

lemma send_then_fetch_keeps_list:
  "messages (snd (fetchMessages (fst (snd (sendMessage d (Some u) fresh now draft st))) (Some u) cid
       (snd (snd (sendMessage d (Some u) fresh now draft st)))))
     = messages st"
  by (simp add: sendMessage_refused fetchMessages_signed_in)

text \<open>
  Claim C3 fails on the code. A, signed in and a participant of c1, sends "hi" into c1
  through \<open>handleSend\<close> and then fetches c1. The insert is refused with error 42P17, so
  nothing is stored and the list is not extended; the fetch is refused in the same
  way and leaves the list as it was, empty. No message with content "hi" is in it.
\<close>

theorem send_then_fetch_finds_nothing:
  "''A'' \<in> members chat_db ''c1''
   \<and> sendMessage chat_db (Some ''A'') ''m1'' 50 (handleSend_message ''hi'' ''c1'' ''A'' 50) empty_messages
       = (Resolved (), chat_db, empty_messages\<lparr>msg_error := Some recursion_message\<rparr>)
   \<and> fetchMessages chat_db (Some ''A'') ''c1'' (empty_messages\<lparr>msg_error := Some recursion_message\<rparr>)
       = (Resolved (), empty_messages\<lparr>msg_error := Some recursion_message\<rparr>)
   \<and> messages (empty_messages\<lparr>msg_error := Some recursion_message\<rparr>) = []"
proof (intro conjI)
  show "''A'' \<in> members chat_db ''c1''"
    by (simp add: members_def sample_defs image_iff)
  show "sendMessage chat_db (Some ''A'') ''m1'' 50 (handleSend_message ''hi'' ''c1'' ''A'' 50) empty_messages
       = (Resolved (), chat_db, empty_messages\<lparr>msg_error := Some recursion_message\<rparr>)"
    by (simp add: sendMessage_refused recursion_message_def)
  show "fetchMessages chat_db (Some ''A'') ''c1'' (empty_messages\<lparr>msg_error := Some recursion_message\<rparr>)
       = (Resolved (), empty_messages\<lparr>msg_error := Some recursion_message\<rparr>)"
    by (simp add: fetchMessages_signed_in empty_messages_def)
  show "messages (empty_messages\<lparr>msg_error := Some recursion_message\<rparr>) = []"
    by (simp add: empty_messages_def)
qed

section \<open>The conversation directory\<close>

text \<open>
  \<open>fetchConversations\<close> never replaces the list: without a signed-in user it stores
  "No user found", and for a signed-in user the query is refused.
\<close>

lemma fetchConversations_answer:
  "fetchConversations d auth st
     = (Resolved (),
        st\<lparr>conv_loading := True,
            conv_error := Some (case auth of None \<Rightarrow> js_message NoUserFound | Some u \<Rightarrow> recursion_message),
            conv_loading := False\<rparr>)"
  by (cases auth) (simp_all add: fetchConversations_def select_conversations_answer recursion_message_def Let_def)

lemma fetchConversations_keeps_list:
  "conversations (snd (fetchConversations d auth st)) = conversations st"
  by (simp add: fetchConversations_answer)

text \<open>
  Claim C4 fails on the code. A is signed in and a participant of c1, yet the list that
  \<open>fetchConversations\<close> leaves in the store does not contain c1: the directory's query
  is refused with error 42P17, the error is stored and the list stays empty.
\<close>

theorem directory_misses_own_conversation:
  "''A'' \<in> members chat_db ''c1''
   \<and> map c_id (tbl_conversations chat_db) = [''c1'']
   \<and> fetchConversations chat_db (Some ''A'') empty_conversations
       = (Resolved (), empty_conversations\<lparr>conv_error := Some recursion_message\<rparr>)
   \<and> conversations (empty_conversations\<lparr>conv_error := Some recursion_message\<rparr>) = []"
proof (intro conjI)
  show "''A'' \<in> members chat_db ''c1''"
    by (simp add: members_def sample_defs image_iff)
  show "map c_id (tbl_conversations chat_db) = [''c1'']"
    by (simp add: sample_defs)
  show "fetchConversations chat_db (Some ''A'') empty_conversations
       = (Resolved (), empty_conversations\<lparr>conv_error := Some recursion_message\<rparr>)"
    by (simp add: fetchConversations_answer empty_conversations_def)
  show "conversations (empty_conversations\<lparr>conv_error := Some recursion_message\<rparr>) = []"
    by (simp add: empty_conversations_def)
qed

section \<open>The conversation's update timestamp\<close>


section \<open>Creating a conversation\<close>







end
